theory Spec2Isabelle
  imports Complex_Main "HOL-Library.Multiset"
begin

section \<open>Geolocation distance ranking: the code of \<open>06-navigator-geolocation.js\<close>\<close>

text \<open>
  The three functions modelled here are \<open>calculateDistance\<close>, \<open>findNearestStore\<close> and
  \<open>findNearbyRestaurants\<close>.

  A JavaScript Number is idealised as a real number: rounding, overflow and the infinities of
  IEEE-754 doubles are not modelled. In particular a distance is always a number here,
  while the doubles of the source can yield \<open>NaN\<close> (see \<open>calculateDistance\<close> below). The
  only \<open>NaN\<close> that is modelled is the result of a comparator that subtracts an absent
  (\<open>undefined\<close>) property; a Number that may be \<open>NaN\<close> is a \<open>real option\<close>, with \<open>None\<close>
  for \<open>NaN\<close>.
\<close>

subsection \<open>Host functions\<close>

text \<open>
  \<open>Math.atan2(y, x)\<close>: the angle of the point \<open>(x, y)\<close>, in \<open>(-\<pi>, \<pi>]\<close>, by quadrant;
  \<open>Math.atan2(0, 0)\<close> is \<open>0\<close>.
\<close>

definition atan2 :: "real \<Rightarrow> real \<Rightarrow> real" where
  "atan2 y x =
     (if 0 < x then arctan (y / x)
      else if x < 0 \<and> 0 \<le> y then arctan (y / x) + pi
      else if x < 0 then arctan (y / x) - pi
      else if 0 < y then pi / 2
      else if y < 0 then - (pi / 2)
      else 0)"

subsection \<open>\<open>calculateDistance\<close>\<close>

text \<open>
  The body of the source function, one \<open>const\<close> per \<open>let\<close> binding. \<open>Math.sqrt\<close> of a
  negative number is \<open>NaN\<close> in JavaScript while \<^const>\<open>sqrt\<close> is an odd function in HOL;
  lemma \<open>haversine_a_bounds\<close> below shows that over the reals both arguments of
  \<open>Math.sqrt\<close> always lie in \<open>[0, 1]\<close>, where the two agree. In doubles this bound can
  fail by rounding: for two nearly antipodal points \<open>a\<close> can come out as
  \<open>1.0000000000000002\<close>, and then \<open>Math.sqrt(1 - a)\<close> and the returned distance are
  \<open>NaN\<close>. What is proved of \<open>calculateDistance\<close> below is proved of the exact value.
\<close>

definition calculateDistance :: "real \<Rightarrow> real \<Rightarrow> real \<Rightarrow> real \<Rightarrow> real" where
  "calculateDistance lat1 lon1 lat2 lon2 =
     (let R = 6371;
          dLat = (lat2 - lat1) * pi / 180;
          dLon = (lon2 - lon1) * pi / 180;
          a = sin (dLat / 2) * sin (dLat / 2) +
              cos (lat1 * pi / 180) * cos (lat2 * pi / 180) *
              sin (dLon / 2) * sin (dLon / 2);
          c = 2 * atan2 (sqrt a) (sqrt (1 - a));
          distance = R * c
      in distance)"

text \<open>The intermediate value \<open>a\<close> of \<open>calculateDistance\<close>, named for the proofs.\<close>

definition haversine_a :: "real \<Rightarrow> real \<Rightarrow> real \<Rightarrow> real \<Rightarrow> real" where
  "haversine_a lat1 lon1 lat2 lon2 =
     sin ((lat2 - lat1) * pi / 180 / 2) * sin ((lat2 - lat1) * pi / 180 / 2) +
     cos (lat1 * pi / 180) * cos (lat2 * pi / 180) *
     sin ((lon2 - lon1) * pi / 180 / 2) * sin ((lon2 - lon1) * pi / 180 / 2)"

subsection \<open>The Haversine formula as the specification words it\<close>

text \<open>
  This definition follows the specification, not the source: a \<open>GeoPoint\<close> with latitude
  and longitude in degrees, \<open>radians\<close>, the squares written as squares, and the result
  \<open>2 \<cdot> R \<cdot> atan2(\<surd>h, \<surd>(1 - h))\<close> with \<open>R = 6371\<close>. It is compared with
  \<^const>\<open>calculateDistance\<close> below.
\<close>

record GeoPoint =
  latitude :: real
  longitude :: real

definition radians :: "real \<Rightarrow> real" where
  "radians deg = deg * pi / 180"

definition haversineKm :: "GeoPoint \<Rightarrow> GeoPoint \<Rightarrow> real" where
  "haversineKm a b =
     (let dLat = radians (latitude b - latitude a);
          dLon = radians (longitude b - longitude a);
          h = (sin (dLat / 2))\<^sup>2 +
              cos (radians (latitude a)) * cos (radians (latitude b)) * (sin (dLon / 2))\<^sup>2
      in 2 * 6371 * atan2 (sqrt h) (sqrt (1 - h)))"

section \<open>Objects, errors and \<open>Array.prototype.sort\<close>\<close>

text \<open>
  The object literals of the source have the properties \<open>name\<close>, \<open>lat\<close>, \<open>lon\<close> and, for
  restaurants only, \<open>rating\<close>. One record covers both shapes: an absent property reads as
  \<open>undefined\<close> in JavaScript, which is \<open>None\<close> here. The spread \<open>{...r, distance: \<dots>}\<close>
  yields a new object with the same properties and \<open>distance\<close> added.
\<close>

record place =
  name :: string
  lat :: real
  lon :: real
  rating :: "real option"

record located = place +
  distance :: real

text \<open>
  The arrow function \<open>r => ({...r, distance: calculateDistance(userLat, userLon, r.lat, r.lon)})\<close>
  that both pipelines map over their array.
\<close>

definition withDistance :: "real \<Rightarrow> real \<Rightarrow> place \<Rightarrow> located" where
  "withDistance userLat userLon r =
     \<lparr>name = name r, lat = lat r, lon = lon r, rating = rating r,
      distance = calculateDistance userLat userLon (lat r) (lon r)\<rparr>"

text \<open>
  \<open>TypeError\<close> is the only exception the modelled code can raise (a property read on
  \<open>undefined\<close>). \<open>InvalidArgumentError\<close> is the error kind the specification names for a
  negative radius; no definition below produces it.
\<close>

datatype error = TypeError | InvalidArgumentError

text \<open>
  A comparator returns a Number, possibly \<open>NaN\<close>. The subtraction of two Numbers that may be
  \<open>undefined\<close> or \<open>NaN\<close> is \<open>NaN\<close> as soon as one operand is.
\<close>

type_synonym 'a comparefn = "'a \<Rightarrow> 'a \<Rightarrow> real option"

definition number_minus :: "real option \<Rightarrow> real option \<Rightarrow> real option" where
  "number_minus x y =
     (case x of None \<Rightarrow> None
      | Some u \<Rightarrow> (case y of None \<Rightarrow> None | Some v \<Rightarrow> Some (u - v)))"

text \<open>
  \<open>Array.prototype.sort(comparefn)\<close>. ECMAScript reads a comparator result through
  \<open>SortCompare\<close>, which replaces \<open>NaN\<close> by \<open>+0\<close>; a positive value puts the second argument
  first, and since ES2019 the sort is stable: elements that compare as \<open>0\<close> keep their order.
  The algorithm itself is left to the engine. It is modelled as a stable insertion sort:
  each element, taken from the right, moves past exactly those sorted elements that
  \<open>SortCompare\<close> puts strictly before it. Where the comparator is consistent (a total
  preorder, as for numeric keys that are all present) every stable sort returns this same
  array; where it is not (some comparisons are \<open>NaN\<close>), the order is implementation-defined
  and the model gives the order an insertion sort produces.
\<close>

definition SortCompare :: "'a comparefn \<Rightarrow> 'a \<Rightarrow> 'a \<Rightarrow> real" where
  "SortCompare comparefn x y = (case comparefn x y of None \<Rightarrow> 0 | Some v \<Rightarrow> v)"

fun insertStable :: "'a comparefn \<Rightarrow> 'a \<Rightarrow> 'a list \<Rightarrow> 'a list" where
  "insertStable comparefn x [] = [x]"
| "insertStable comparefn x (y # ys) =
     (if 0 < SortCompare comparefn x y then y # insertStable comparefn x ys else x # y # ys)"

fun array_sort :: "'a comparefn \<Rightarrow> 'a list \<Rightarrow> 'a list" where
  "array_sort comparefn [] = []"
| "array_sort comparefn (x # xs) = insertStable comparefn x (array_sort comparefn xs)"

text \<open>The two comparators of the source: \<open>(a, b) => a.distance - b.distance\<close> and
  \<open>(a, b) => b.rating - a.rating\<close>.\<close>

definition byDistance :: "located comparefn" where
  "byDistance a b = number_minus (Some (distance a)) (Some (distance b))"

definition byRatingDesc :: "located comparefn" where
  "byRatingDesc a b = number_minus (rating b) (rating a)"

section \<open>\<open>findNearestStore\<close>\<close>

text \<open>
  The source function takes the user's position only and binds the array \<open>stores\<close> to a
  literal. \<open>findNearestStore_in\<close> is its body with that array as a parameter (the
  candidates of the specification's \<open>nearest\<close>); \<open>findNearestStore\<close> is the function as
  written. Element \<open>0\<close> of an empty array is \<open>undefined\<close>, and the next statement reads
  \<open>nearest.name\<close>, which throws a \<open>TypeError\<close>; no call of the function as written reaches
  that branch, since \<open>stores\<close> has three elements. The console output is not modelled.
\<close>

definition stores :: "place list" where
  "stores =
     [\<lparr>name = ''Store A'', lat = 19.0760, lon = 72.8777, rating = None\<rparr>,
      \<lparr>name = ''Store B'', lat = 19.1136, lon = 72.8697, rating = None\<rparr>,
      \<lparr>name = ''Store C'', lat = 18.9388, lon = 72.8354, rating = None\<rparr>]"

definition findNearestStore_in :: "place list \<Rightarrow> real \<Rightarrow> real \<Rightarrow> error + located" where
  "findNearestStore_in candidates userLat userLon =
     (let storesWithDistance = map (withDistance userLat userLon) candidates
      in case array_sort byDistance storesWithDistance of
           [] \<Rightarrow> Inl TypeError
         | nearest # _ \<Rightarrow> Inr nearest)"

definition findNearestStore :: "real \<Rightarrow> real \<Rightarrow> error + located" where
  "findNearestStore userLat userLon = findNearestStore_in stores userLat userLon"

section \<open>\<open>findNearbyRestaurants\<close>\<close>

text \<open>
  \<open>async function findNearbyRestaurants(userLat, userLon, radius = 5)\<close>. The optional
  argument is a \<open>real option\<close>: \<open>None\<close> is the omitted argument, for which the default
  initialiser runs. The function is \<open>async\<close>; its result here is how the returned promise
  settles, \<open>Inr\<close> for the value it is fulfilled with and \<open>Inl\<close> for a rejection. No statement
  of the body can throw, so the promise is always fulfilled. As above, the array literal
  \<open>restaurants\<close> is a parameter of \<open>findNearbyRestaurants_in\<close> (the candidates of the
  specification's \<open>within\<close>), and the console output is not modelled.
\<close>

definition restaurants :: "place list" where
  "restaurants =
     [\<lparr>name = ''Restaurant A'', lat = 19.0760, lon = 72.8777, rating = Some 4.5\<rparr>,
      \<lparr>name = ''Restaurant B'', lat = 19.1136, lon = 72.8697, rating = Some 4.2\<rparr>,
      \<lparr>name = ''Restaurant C'', lat = 18.9388, lon = 72.8354, rating = Some 4.8\<rparr>]"

definition findNearbyRestaurants_in ::
  "place list \<Rightarrow> real \<Rightarrow> real \<Rightarrow> real option \<Rightarrow> error + located list" where
  "findNearbyRestaurants_in candidates userLat userLon radiusArg =
     (let radius = (case radiusArg of None \<Rightarrow> 5 | Some r \<Rightarrow> r);
          nearby = array_sort byRatingDesc
                     (filter (\<lambda>r. distance r \<le> radius)
                        (map (withDistance userLat userLon) candidates))
      in Inr nearby)"

definition findNearbyRestaurants :: "real \<Rightarrow> real \<Rightarrow> real option \<Rightarrow> error + located list" where
  "findNearbyRestaurants userLat userLon radiusArg =
     findNearbyRestaurants_in restaurants userLat userLon radiusArg"

section \<open>Predicates on result sequences\<close>

text \<open>
  \<open>ratingDescending\<close>: of any two elements that both carry a rating, the earlier one has
  the rating that is at least as high.
\<close>

definition ratingDescending :: "located list \<Rightarrow> bool" where
  "ratingDescending out =
     sorted_wrt (\<lambda>a b. case rating a of None \<Rightarrow> True
                        | Some u \<Rightarrow> (case rating b of None \<Rightarrow> True | Some v \<Rightarrow> v \<le> u)) out"

section \<open>Properties of \<open>calculateDistance\<close>\<close>

lemma calculateDistance_alt:
  "calculateDistance lat1 lon1 lat2 lon2 =
     6371 * (2 * atan2 (sqrt (haversine_a lat1 lon1 lat2 lon2))
                       (sqrt (1 - haversine_a lat1 lon1 lat2 lon2)))"
  by (simp add: calculateDistance_def haversine_a_def Let_def)

lemma haversine_a_bounds:
  "0 \<le> haversine_a lat1 lon1 lat2 lon2 \<and> haversine_a lat1 lon1 lat2 lon2 \<le> 1"
proof -
  define p where "p = lat1 * pi / 180"
  define q where "q = lat2 * pi / 180"
  define x where "x = (lat2 - lat1) * pi / 180 / 2"
  define y where "y = (lon2 - lon1) * pi / 180 / 2"
  define A where "A = sin x * sin x"
  define s where "s = sin y * sin y"
  define cc where "cc = cos p * cos q"
  define C where "C = cos (p + q)"
  define B where "B = cc * s"
  have s01: "0 \<le> s" "s \<le> 1"
    unfolding s_def using sin_le_one[of y] sin_ge_minus_one[of y]
    by (simp_all add: abs_square_le_1 flip: power2_eq_square)
  have A01: "0 \<le> A" "A \<le> 1"
    unfolding A_def using sin_le_one[of x] sin_ge_minus_one[of x]
    by (simp_all add: abs_square_le_1 flip: power2_eq_square)
  have C01: "- 1 \<le> C" "C \<le> 1"
    unfolding C_def by simp_all
  have x2: "2 * x = q - p"
    unfolding x_def p_def q_def by (simp add: field_simps)
  have "cos (q - p) = 1 - 2 * (sin x)\<^sup>2"
    using cos_double_sin[of x] x2 by simp
  then have "2 * A = 1 - cos p * cos q - sin p * sin q"
    unfolding A_def by (simp add: cos_diff power2_eq_square algebra_simps)
  moreover have "C = cos p * cos q - sin p * sin q"
    unfolding C_def by (rule cos_add)
  ultimately have key: "2 * A + 2 * cc = 1 + C"
    unfolding cc_def by simp
  have h: "haversine_a lat1 lon1 lat2 lon2 = A + B"
    unfolding haversine_a_def x_def y_def p_def q_def s_def A_def cc_def B_def
    by (simp add: algebra_simps)
  show ?thesis
  proof (cases "0 \<le> cc")
    case True
    have b1: "0 \<le> B" using True s01 by (simp add: B_def)
    have b2: "B \<le> cc" using True s01 by (simp add: B_def mult_left_le)
    have "0 \<le> A + B" using b1 A01 by linarith
    moreover have "A + B \<le> 1" using b2 key C01 by linarith
    ultimately show ?thesis by (simp add: h)
  next
    case False
    then have b1: "B \<le> 0" using s01 by (simp add: B_def mult_le_0_iff)
    have b2: "cc \<le> B" using False s01 mult_left_le[of s "- cc"] by (simp add: B_def)
    have "0 \<le> A + B" using b2 key C01 by linarith
    moreover have "A + B \<le> 1" using b1 A01 by linarith
    ultimately show ?thesis by (simp add: h)
  qed
qed

lemma sin_half_diff_swap:
  fixes u v :: real
  shows "sin ((u - v) * pi / 180 / 2) * sin ((u - v) * pi / 180 / 2) =
         sin ((v - u) * pi / 180 / 2) * sin ((v - u) * pi / 180 / 2)"
proof -
  have "(u - v) * pi / 180 / 2 = - ((v - u) * pi / 180 / 2)"
    by (simp add: field_simps)
  then show ?thesis
    by (simp only: sin_minus minus_mult_minus)
qed

lemma haversine_a_swap:
  "haversine_a lat1 lon1 lat2 lon2 = haversine_a lat2 lon2 lat1 lon1"
proof -
  have "haversine_a lat1 lon1 lat2 lon2 =
        sin ((lat2 - lat1) * pi / 180 / 2) * sin ((lat2 - lat1) * pi / 180 / 2) +
        cos (lat1 * pi / 180) * cos (lat2 * pi / 180) *
        (sin ((lon2 - lon1) * pi / 180 / 2) * sin ((lon2 - lon1) * pi / 180 / 2))"
    by (simp add: haversine_a_def mult.assoc)
  also have "\<dots> =
        sin ((lat1 - lat2) * pi / 180 / 2) * sin ((lat1 - lat2) * pi / 180 / 2) +
        cos (lat2 * pi / 180) * cos (lat1 * pi / 180) *
        (sin ((lon1 - lon2) * pi / 180 / 2) * sin ((lon1 - lon2) * pi / 180 / 2))"
    by (simp only: sin_half_diff_swap[of lat2 lat1] sin_half_diff_swap[of lon2 lon1]
          mult.commute[of "cos (lat1 * pi / 180)"])
  also have "\<dots> = haversine_a lat2 lon2 lat1 lon1"
    by (simp add: haversine_a_def mult.assoc)
  finally show ?thesis .
qed

text \<open>
  C1. For every pair of points \<open>a\<close> and \<open>b\<close>, the value that \<open>calculateDistance\<close> returns on
  their coordinates is the Haversine great-circle distance of the specification: with
  \<open>dLat\<close>, \<open>dLon\<close> the coordinate differences in radians and
  \<open>h = sin\<^sup>2(dLat/2) + cos(radians a.lat) \<cdot> cos(radians b.lat) \<cdot> sin\<^sup>2(dLon/2)\<close>, it is
  \<open>2 \<cdot> 6371 \<cdot> atan2(\<surd>h, \<surd>(1 - h))\<close> kilometres.
\<close>

theorem calculateDistance_is_haversine:
  "calculateDistance (latitude a) (longitude a) (latitude b) (longitude b) = haversineKm a b"
  by (simp add: calculateDistance_def haversineKm_def radians_def Let_def power2_eq_square
      mult.assoc)

text \<open>
  C8. Distance is symmetric: for all points \<open>A\<close> and \<open>B\<close>, the distance from \<open>A\<close> to \<open>B\<close>
  equals the distance from \<open>B\<close> to \<open>A\<close>, exactly, over real arithmetic.
\<close>

theorem calculateDistance_symmetric:
  "calculateDistance lat1 lon1 lat2 lon2 = calculateDistance lat2 lon2 lat1 lon1"
  by (simp only: calculateDistance_alt haversine_a_swap[of lat1 lon1 lat2 lon2])

text \<open>
  C9. The distance from a point to itself (identical coordinates) is exactly \<open>0\<close>.
\<close>

theorem calculateDistance_self_zero:
  "calculateDistance lat1 lon1 lat1 lon1 = 0"
  by (simp add: calculateDistance_def atan2_def)

lemma atan2_nonneg:
  assumes "0 \<le> y"
  shows "0 \<le> atan2 y x"
proof -
  have "- (pi / 2) < arctan (y / x)"
    by (rule arctan_lbound)
  then have up: "0 \<le> arctan (y / x) + pi"
    using pi_gt_zero by linarith
  have pos: "0 \<le> arctan (y / x)" if "0 < x"
    using assms that by simp
  show ?thesis
    using assms up pos pi_gt_zero by (simp add: atan2_def)
qed

lemma calculateDistance_nonneg: "0 \<le> calculateDistance lat1 lon1 lat2 lon2"
  using haversine_a_bounds[of lat1 lon1 lat2 lon2]
  by (simp add: calculateDistance_alt atan2_nonneg)

section \<open>Properties of the sort\<close>

lemma mset_insertStable: "mset (insertStable comparefn x ys) = add_mset x (mset ys)"
  by (induction ys) simp_all

lemma mset_array_sort: "mset (array_sort comparefn xs) = mset xs"
  by (induction xs) (simp_all add: mset_insertStable)

lemma set_array_sort: "set (array_sort comparefn xs) = set xs"
  using mset_array_sort[of comparefn xs] by (metis set_mset_mset)

lemma array_sort_Nil_iff: "array_sort comparefn xs = [] \<longleftrightarrow> xs = []"
  using mset_array_sort[of comparefn xs] by (metis mset_zero_iff)

lemma hd_insertStable:
  "hd (insertStable comparefn x ys) =
     (if ys \<noteq> [] \<and> 0 < SortCompare comparefn x (hd ys) then hd ys else x)"
  by (cases ys) simp_all

text \<open>
  With a comparator that subtracts numeric keys, the first element of the sorted array is
  the earliest element of the input whose key is minimal.
\<close>

lemma hd_array_sort_first_min:
  assumes key: "\<And>a b. SortCompare comparefn a b = k a - k b"
      and ne: "xs \<noteq> []"
  shows "\<exists>i<length xs. hd (array_sort comparefn xs) = xs ! i \<and>
           (\<forall>j<length xs. k (xs ! i) \<le> k (xs ! j)) \<and> (\<forall>j<i. k (xs ! i) < k (xs ! j))"
  using ne
proof (induction xs)
  case Nil
  then show ?case by simp
next
  case (Cons x xs)
  show ?case
  proof (cases "xs = []")
    case True
    then show ?thesis by simp
  next
    case False
    from Cons.IH[OF False] obtain i where i: "i < length xs"
      and hdi: "hd (array_sort comparefn xs) = xs ! i"
      and mn: "\<forall>j<length xs. k (xs ! i) \<le> k (xs ! j)"
      and st: "\<forall>j<i. k (xs ! i) < k (xs ! j)"
      by blast
    have sne: "array_sort comparefn xs \<noteq> []"
      using False by (simp add: array_sort_Nil_iff)
    show ?thesis
    proof (cases "k (xs ! i) < k x")
      case True
      then have h: "hd (array_sort comparefn (x # xs)) = (x # xs) ! Suc i"
        using sne hdi by (simp add: hd_insertStable key)
      have a: "\<forall>j<length (x # xs). k ((x # xs) ! Suc i) \<le> k ((x # xs) ! j)"
        using mn True by (auto simp: nth_Cons split: nat.splits)
      have b: "\<forall>j<Suc i. k ((x # xs) ! Suc i) < k ((x # xs) ! j)"
        using st True by (auto simp: nth_Cons split: nat.splits)
      show ?thesis
        using i h a b by (intro exI[of _ "Suc i"]) simp
    next
      case False
      then have h: "hd (array_sort comparefn (x # xs)) = (x # xs) ! 0"
        using sne hdi by (simp add: hd_insertStable key)
      have a: "\<forall>j<length (x # xs). k ((x # xs) ! 0) \<le> k ((x # xs) ! j)"
        using mn False i by (fastforce simp: nth_Cons split: nat.splits)
      show ?thesis
        using h a by (intro exI[of _ 0]) simp
    qed
  qed
qed

lemma sorted_insertStable:
  assumes "sorted_wrt (\<lambda>a b. k a \<le> k b) ys"
      and "\<forall>b\<in>set ys. SortCompare comparefn x b = k x - k b"
  shows "sorted_wrt (\<lambda>a b. (k a :: real) \<le> k b) (insertStable comparefn x ys)"
  using assms
proof (induction ys)
  case Nil
  then show ?case by simp
next
  case (Cons y ys)
  show ?case
  proof (cases "0 < SortCompare comparefn x y")
    case True
    have "set (insertStable comparefn x ys) = insert x (set ys)"
      using mset_insertStable[of comparefn x ys]
      by (metis set_mset_mset set_mset_add_mset_insert)
    then show ?thesis
      using True Cons by auto
  next
    case False
    then show ?thesis
      using Cons.prems by fastforce
  qed
qed

lemma sorted_array_sort:
  assumes "\<forall>a\<in>set xs. \<forall>b\<in>set xs. SortCompare comparefn a b = k a - k b"
  shows "sorted_wrt (\<lambda>a b. (k a :: real) \<le> k b) (array_sort comparefn xs)"
  using assms
proof (induction xs)
  case Nil
  then show ?case by simp
next
  case (Cons x xs)
  have "sorted_wrt (\<lambda>a b. k a \<le> k b) (array_sort comparefn xs)"
    using Cons by simp
  moreover have "\<forall>b\<in>set (array_sort comparefn xs). SortCompare comparefn x b = k x - k b"
    using Cons.prems by (simp add: set_array_sort)
  ultimately show ?case
    by (simp add: sorted_insertStable)
qed

text \<open>
  Stability: elements that satisfy \<open>P\<close> keep their relative order when no two of them are
  ever compared as strictly out of order.
\<close>

lemma filter_insertStable:
  assumes "\<forall>y\<in>set ys. 0 < SortCompare comparefn x y \<longrightarrow> \<not> (P x \<and> P y)"
  shows "filter P (insertStable comparefn x ys) = filter P (x # ys)"
  using assms by (induction ys) auto

lemma filter_array_sort:
  assumes "\<forall>x y. 0 < SortCompare comparefn x y \<longrightarrow> \<not> (P x \<and> P y)"
  shows "filter P (array_sort comparefn xs) = filter P xs"
  using assms by (induction xs) (simp_all add: filter_insertStable)

text \<open>
  With a comparator that subtracts numeric keys the model is the library's stable sort by
  that key.
\<close>

lemma insertStable_numeric_key:
  assumes "\<And>a b. SortCompare comparefn a b = k a - k b"
  shows "insertStable comparefn x ys = insort_key (k :: 'a \<Rightarrow> real) x ys"
  by (induction ys) (auto simp: assms)

lemma array_sort_numeric_key:
  assumes "\<And>a b. SortCompare comparefn a b = k a - k b"
  shows "array_sort comparefn xs = sort_key (k :: 'a \<Rightarrow> real) xs"
  by (induction xs) (simp_all add: insertStable_numeric_key[OF assms])

lemma SortCompare_byDistance: "SortCompare byDistance a b = distance a - distance b"
  by (simp add: SortCompare_def byDistance_def number_minus_def)

lemma SortCompare_byRatingDesc_rated:
  "rating a = Some u \<Longrightarrow> rating b = Some v \<Longrightarrow> SortCompare byRatingDesc a b = v - u"
  by (simp add: SortCompare_def byRatingDesc_def number_minus_def)

lemma byRatingDesc_equal_not_positive:
  "\<not> (0 < SortCompare byRatingDesc a b \<and> rating a = Some v \<and> rating b = Some v)"
  by (auto simp: SortCompare_byRatingDesc_rated)

section \<open>Properties of \<open>findNearestStore\<close>\<close>

text \<open>
  In exact arithmetic the comparator \<open>a.distance - b.distance\<close> is consistent, and the
  body returns the earliest candidate at minimal distance: the returned candidate is at
  some index \<open>i\<close>, no candidate is closer, and every candidate before \<open>i\<close> is strictly
  farther. This is a statement about the exact distances only. Where a double distance is
  \<open>NaN\<close>, every comparison with it is \<open>NaN\<close>, read as a tie, and the source can return a
  store that is not the nearest one.
\<close>

lemma findNearestStore_in_first_minimal:
  assumes "candidates \<noteq> []"
  shows "\<exists>i<length candidates.
           findNearestStore_in candidates userLat userLon =
             Inr (withDistance userLat userLon (candidates ! i)) \<and>
           (\<forall>j<length candidates.
              calculateDistance userLat userLon (lat (candidates ! i)) (lon (candidates ! i))
              \<le> calculateDistance userLat userLon (lat (candidates ! j)) (lon (candidates ! j))) \<and>
           (\<forall>j<i.
              calculateDistance userLat userLon (lat (candidates ! i)) (lon (candidates ! i))
              < calculateDistance userLat userLon (lat (candidates ! j)) (lon (candidates ! j)))"
proof -
  let ?ws = "map (withDistance userLat userLon) candidates"
  have ne: "?ws \<noteq> []"
    using assms by simp
  obtain i where i: "i < length ?ws"
    and hdi: "hd (array_sort byDistance ?ws) = ?ws ! i"
    and mn: "\<forall>j<length ?ws. distance (?ws ! i) \<le> distance (?ws ! j)"
    and st: "\<forall>j<i. distance (?ws ! i) < distance (?ws ! j)"
    using hd_array_sort_first_min[of byDistance distance ?ws, OF SortCompare_byDistance ne]
    by blast
  have "array_sort byDistance ?ws \<noteq> []"
    using ne by (simp add: array_sort_Nil_iff)
  then have res: "findNearestStore_in candidates userLat userLon = Inr (?ws ! i)"
    using hdi by (cases "array_sort byDistance ?ws") (simp_all add: findNearestStore_in_def)
  have i': "i < length candidates"
    using i by simp
  have d: "distance (?ws ! j) =
           calculateDistance userLat userLon (lat (candidates ! j)) (lon (candidates ! j))"
    if "j < length candidates" for j
    using that by (simp add: withDistance_def)
  have a: "\<forall>j<length candidates.
              calculateDistance userLat userLon (lat (candidates ! i)) (lon (candidates ! i))
              \<le> calculateDistance userLat userLon (lat (candidates ! j)) (lon (candidates ! j))"
  proof (intro allI impI)
    fix j
    assume j: "j < length candidates"
    then have "distance (?ws ! i) \<le> distance (?ws ! j)"
      using mn by simp
    then show "calculateDistance userLat userLon (lat (candidates ! i)) (lon (candidates ! i))
              \<le> calculateDistance userLat userLon (lat (candidates ! j)) (lon (candidates ! j))"
      by (simp only: d[OF i'] d[OF j])
  qed
  have b: "\<forall>j<i.
              calculateDistance userLat userLon (lat (candidates ! i)) (lon (candidates ! i))
              < calculateDistance userLat userLon (lat (candidates ! j)) (lon (candidates ! j))"
  proof (intro allI impI)
    fix j
    assume ji: "j < i"
    then have j: "j < length candidates"
      using i' by simp
    have "distance (?ws ! i) < distance (?ws ! j)"
      using st ji by simp
    then show "calculateDistance userLat userLon (lat (candidates ! i)) (lon (candidates ! i))
              < calculateDistance userLat userLon (lat (candidates ! j)) (lon (candidates ! j))"
      by (simp only: d[OF i'] d[OF j])
  qed
  show ?thesis
    using i' res a b by (intro exI[of _ i]) simp
qed

text \<open>
  The function as written never fails: for every origin it returns one of the three
  stores of the literal, with a distance attached.
\<close>

lemma findNearestStore_returns_store:
  "\<exists>i<length stores.
     findNearestStore userLat userLon = Inr (withDistance userLat userLon (stores ! i))"
proof -
  have ne: "stores \<noteq> []"
    by (simp add: stores_def)
  from findNearestStore_in_first_minimal[OF ne, of userLat userLon] show ?thesis
    unfolding findNearestStore_def by blast
qed

section \<open>Properties of \<open>findNearbyRestaurants\<close>\<close>

lemma findNearbyRestaurants_in_result:
  "findNearbyRestaurants_in candidates userLat userLon radiusArg =
     Inr (array_sort byRatingDesc
            (filter (\<lambda>r. distance r \<le> (case radiusArg of None \<Rightarrow> 5 | Some r \<Rightarrow> r))
               (map (withDistance userLat userLon) candidates)))"
  by (simp add: findNearbyRestaurants_in_def Let_def)

lemma filter_negative_radius:
  assumes "radiusKm < 0"
  shows "filter (\<lambda>r. distance r \<le> radiusKm) (map (withDistance userLat userLon) candidates) = []"
proof -
  have "\<not> distance (withDistance userLat userLon c) \<le> radiusKm" for c
    using assms calculateDistance_nonneg[of userLat userLon "lat c" "lon c"]
    by (simp add: withDistance_def)
  then show ?thesis
    by (simp add: filter_empty_conv)
qed

lemma findNearbyRestaurants_in_negative:
  "radiusKm < 0 \<Longrightarrow>
     findNearbyRestaurants_in candidates userLat userLon (Some radiusKm) = Inr []"
  by (simp add: findNearbyRestaurants_in_result filter_negative_radius)

text \<open>
  C4. For every origin, candidate sequence and radius, the result of \<open>within\<close> contains
  exactly the candidates whose distance to the origin is less than or equal to
  \<open>radiusKm\<close>, each as often as it occurs in the input and each with its distance attached:
  a candidate at distance exactly \<open>radiusKm\<close> is included, a candidate strictly beyond it
  is not.
\<close>

theorem within_exactly_radius:
  "\<exists>out. findNearbyRestaurants_in candidates userLat userLon (Some radiusKm) = Inr out \<and>
     mset out =
       image_mset (withDistance userLat userLon)
         (filter_mset (\<lambda>c. calculateDistance userLat userLon (lat c) (lon c) \<le> radiusKm)
            (mset candidates))"
proof -
  have "filter (\<lambda>r. distance r \<le> radiusKm) (map (withDistance userLat userLon) candidates) =
        map (withDistance userLat userLon)
          (filter (\<lambda>c. calculateDistance userLat userLon (lat c) (lon c) \<le> radiusKm) candidates)"
    by (simp add: filter_map o_def withDistance_def)
  then show ?thesis
    by (simp add: findNearbyRestaurants_in_result mset_array_sort)
qed

text \<open>
  Where every candidate within the radius has a rating, the comparator
  \<open>b.rating - a.rating\<close> is consistent on the retained candidates, so the result is the
  stable sort by descending rating.
\<close>

lemma findNearbyRestaurants_in_rated_sorted_stable:
  assumes "\<forall>c\<in>set candidates.
             calculateDistance userLat userLon (lat c) (lon c) \<le> radiusKm \<longrightarrow> rating c \<noteq> None"
  shows "\<exists>out. findNearbyRestaurants_in candidates userLat userLon (Some radiusKm) = Inr out \<and>
           list_all (\<lambda>r. rating r \<noteq> None) out \<and>
           ratingDescending out \<and>
           (\<forall>v. filter (\<lambda>r. rating r = Some v) out =
                filter (\<lambda>r. rating r = Some v)
                  (filter (\<lambda>r. distance r \<le> radiusKm)
                     (map (withDistance userLat userLon) candidates)))"
proof -
  let ?kept = "filter (\<lambda>r. distance r \<le> radiusKm) (map (withDistance userLat userLon) candidates)"
  let ?out = "array_sort byRatingDesc ?kept"
  have rated: "\<forall>r\<in>set ?kept. rating r \<noteq> None"
    using assms by (auto simp: withDistance_def)
  have "\<forall>a\<in>set ?kept. \<forall>b\<in>set ?kept.
          SortCompare byRatingDesc a b = - the (rating a) - - the (rating b)"
    using rated by (auto simp: SortCompare_byRatingDesc_rated)
  then have "sorted_wrt (\<lambda>a b. - the (rating a) \<le> - the (rating b)) ?out"
    by (rule sorted_array_sort)
  then have "ratingDescending ?out"
    unfolding ratingDescending_def
    by (rule sorted_wrt_mono_rel[rotated]) (auto split: option.splits)
  moreover have "filter (\<lambda>r. rating r = Some v) ?out = filter (\<lambda>r. rating r = Some v) ?kept"
    for v
    using byRatingDesc_equal_not_positive by (intro filter_array_sort) blast
  moreover have "list_all (\<lambda>r. rating r \<noteq> None) ?out"
    using rated by (simp only: list_all_iff set_array_sort)
  ultimately show ?thesis
    by (simp only: findNearbyRestaurants_in_result option.case) blast
qed

text \<open>
  C5. For every origin and radius, the sequence returned by \<open>within\<close> is sorted by rating
  in descending order, and the retained candidates of any one rating appear in the
  output in the order they had in the input. This holds of \<open>findNearbyRestaurants\<close> as
  written, whose three restaurants all have a rating, and of its body on every candidate
  sequence whose members all have a rating.
\<close>

theorem within_sorted_by_rating_stable:
  "(\<exists>out. findNearbyRestaurants userLat userLon (Some radiusKm) = Inr out \<and>
      list_all (\<lambda>r. rating r \<noteq> None) out \<and>
      ratingDescending out \<and>
      (\<forall>v. filter (\<lambda>r. rating r = Some v) out =
           filter (\<lambda>r. rating r = Some v)
             (filter (\<lambda>r. distance r \<le> radiusKm)
                (map (withDistance userLat userLon) restaurants)))) \<and>
   ((\<forall>c\<in>set candidates. rating c \<noteq> None) \<longrightarrow>
    (\<exists>out. findNearbyRestaurants_in candidates userLat userLon (Some radiusKm) = Inr out \<and>
       list_all (\<lambda>r. rating r \<noteq> None) out \<and>
       ratingDescending out \<and>
       (\<forall>v. filter (\<lambda>r. rating r = Some v) out =
            filter (\<lambda>r. rating r = Some v)
              (filter (\<lambda>r. distance r \<le> radiusKm)
                 (map (withDistance userLat userLon) candidates)))))"
proof (intro conjI impI)
  have "\<forall>c\<in>set restaurants. rating c \<noteq> None"
    by (simp add: restaurants_def del: not_None_eq)
  then have "\<forall>c\<in>set restaurants.
          calculateDistance userLat userLon (lat c) (lon c) \<le> radiusKm \<longrightarrow> rating c \<noteq> None"
    by blast
  from findNearbyRestaurants_in_rated_sorted_stable[OF this]
  show "\<exists>out. findNearbyRestaurants userLat userLon (Some radiusKm) = Inr out \<and>
      list_all (\<lambda>r. rating r \<noteq> None) out \<and>
      ratingDescending out \<and>
      (\<forall>v. filter (\<lambda>r. rating r = Some v) out =
           filter (\<lambda>r. rating r = Some v)
             (filter (\<lambda>r. distance r \<le> radiusKm)
                (map (withDistance userLat userLon) restaurants)))"
    by (simp only: findNearbyRestaurants_def)
next
  assume "\<forall>c\<in>set candidates. rating c \<noteq> None"
  then have "\<forall>c\<in>set candidates.
          calculateDistance userLat userLon (lat c) (lon c) \<le> radiusKm \<longrightarrow> rating c \<noteq> None"
    by blast
  from findNearbyRestaurants_in_rated_sorted_stable[OF this]
  show "\<exists>out. findNearbyRestaurants_in candidates userLat userLon (Some radiusKm) = Inr out \<and>
       list_all (\<lambda>r. rating r \<noteq> None) out \<and>
       ratingDescending out \<and>
       (\<forall>v. filter (\<lambda>r. rating r = Some v) out =
            filter (\<lambda>r. rating r = Some v)
              (filter (\<lambda>r. distance r \<le> radiusKm)
                 (map (withDistance userLat userLon) candidates)))" .
qed

text \<open>
  The theorem at three candidates of which the first and the last have the same rating,
  all at the origin, with the radius 5: the hypothesis holds, and so does the conclusion.
\<close>

theorem within_sorted_by_rating_stable_witness:
  "\<exists>out. findNearbyRestaurants_in
            [\<lparr>name = ''A'', lat = 19.0760, lon = 72.8777, rating = Some 4.5\<rparr>,
             \<lparr>name = ''B'', lat = 19.0760, lon = 72.8777, rating = Some 4.8\<rparr>,
             \<lparr>name = ''C'', lat = 19.0760, lon = 72.8777, rating = Some 4.5\<rparr>]
            19.0760 72.8777 (Some 5) = Inr out \<and>
     list_all (\<lambda>r. rating r \<noteq> None) out \<and>
     ratingDescending out \<and>
     (\<forall>v. filter (\<lambda>r. rating r = Some v) out =
          filter (\<lambda>r. rating r = Some v)
            (filter (\<lambda>r. distance r \<le> 5)
               (map (withDistance 19.0760 72.8777)
                  [\<lparr>name = ''A'', lat = 19.0760, lon = 72.8777, rating = Some 4.5\<rparr>,
                   \<lparr>name = ''B'', lat = 19.0760, lon = 72.8777, rating = Some 4.8\<rparr>,
                   \<lparr>name = ''C'', lat = 19.0760, lon = 72.8777, rating = Some 4.5\<rparr>])))"
proof -
  let ?cs = "[\<lparr>name = ''A'', lat = 19.0760, lon = 72.8777, rating = Some 4.5\<rparr>,
              \<lparr>name = ''B'', lat = 19.0760, lon = 72.8777, rating = Some 4.8\<rparr>,
              \<lparr>name = ''C'', lat = 19.0760, lon = 72.8777, rating = Some (4.5 :: real)\<rparr>]"
  have rated: "\<forall>c\<in>set ?cs. rating c \<noteq> None"
    by (simp del: not_None_eq)
  from within_sorted_by_rating_stable[of _ _ _ ?cs, THEN conjunct2, THEN mp, OF rated,
      of "19.0760" "72.8777" 5]
  show ?thesis .
qed

text \<open>
  C6, as stated: with a negative \<open>radiusKm\<close>, \<open>within\<close> fails with an
  \<open>InvalidArgumentError\<close>. It does not: the radius is not checked, no distance is
  \<open>\<le> -1\<close>, and the call returns the empty sequence.
\<close>

theorem within_negative_radius_counterexample:
  "findNearbyRestaurants 19.0760 72.8777 (Some (- 1)) = Inr [] \<and>
   findNearbyRestaurants 19.0760 72.8777 (Some (- 1)) \<noteq> Inl InvalidArgumentError"
  by (simp add: findNearbyRestaurants_def findNearbyRestaurants_in_negative)

text \<open>
  C6, amended. For every origin and candidate sequence, \<open>within\<close> with a negative
  \<open>radiusKm\<close> does not fail: it returns the empty sequence, since no distance is negative.
\<close>

theorem within_negative_radius_empty:
  "radiusKm < 0 \<Longrightarrow>
     findNearbyRestaurants_in candidates userLat userLon (Some radiusKm) = Inr []"
  by (rule findNearbyRestaurants_in_negative)

theorem within_negative_radius_empty_witness:
  "(- 1 :: real) < 0 \<and> findNearbyRestaurants 19.0760 72.8777 (Some (- 1)) = Inr []"
proof -
  have neg: "(- 1 :: real) < 0"
    by simp
  show ?thesis
    using neg within_negative_radius_empty[OF neg, of restaurants "19.0760" "72.8777"]
    by (simp only: findNearbyRestaurants_def simp_thms)
qed

text \<open>
  C10. When the radius argument is omitted, \<open>findNearbyRestaurants\<close> uses the radius 5:
  for every origin, the call without a radius returns what the call with radius 5
  returns. The same holds of the body on any candidate sequence.
\<close>

theorem default_radius_is_5:
  "findNearbyRestaurants userLat userLon None = findNearbyRestaurants userLat userLon (Some 5) \<and>
   findNearbyRestaurants_in candidates userLat userLon None =
     findNearbyRestaurants_in candidates userLat userLon (Some 5)"
  by (simp add: findNearbyRestaurants_def findNearbyRestaurants_in_def)

end
